theory Spec2Isabelle
  imports Main "HOL-Library.AList"
begin

section \<open>The syntax tree seen by the visitor\<close>

text \<open>
  The visitor of \<^verbatim>\<open>visitor.py\<close> is an \<^verbatim>\<open>ast.NodeVisitor\<close> with methods for
  \<^verbatim>\<open>Import\<close>, \<^verbatim>\<open>ImportFrom\<close>, \<^verbatim>\<open>Assign\<close>, \<^verbatim>\<open>FunctionDef\<close>,
  \<^verbatim>\<open>AsyncFunctionDef\<close> and \<^verbatim>\<open>ClassDef\<close>. Every other node is handled by
  \<^verbatim>\<open>generic_visit\<close>, which only descends into the children.

  Expressions are kept as far as \<^verbatim>\<open>visit_Assign\<close> inspects them: the kind of a target
  and, for a tuple, the kind of each element. A Python expression never contains a statement,
  and the visitor has no method for any expression node, so descending into an expression
  records nothing; the model therefore keeps no expression children of definitions and of
  the remaining statements.
\<close>

datatype expr =
    Name string
  | Tuple "expr list"
  | ListDisplay "expr list"
  | Attribute expr string
  | Subscript expr expr
  | Starred expr
  | OtherExpr "expr list"

text \<open>\<^verbatim>\<open>ast.alias\<close>: the imported name and the optional \<^verbatim>\<open>as\<close> name.\<close>

datatype ast_alias = Alias (name: string) (asname: "string option")

text \<open>
  \<^verbatim>\<open>ImportFrom\<close> carries \<^verbatim>\<open>module\<close> (\<^verbatim>\<open>None\<close> for \<^verbatim>\<open>from . import x\<close>), the
  names and the relative level. \<open>OtherStmt\<close> stands for every statement kind without a
  visitor method (\<^verbatim>\<open>If\<close>, \<^verbatim>\<open>For\<close>, \<^verbatim>\<open>With\<close>, \<^verbatim>\<open>Try\<close>, \<^verbatim>\<open>AnnAssign\<close>, ...) and holds
  the statements nested in it.
\<close>

datatype stmt =
    Import "ast_alias list"
  | ImportFrom "string option" "ast_alias list" nat
  | Assign "expr list" expr
  | FunctionDef string "stmt list"
  | AsyncFunctionDef string "stmt list"
  | ClassDef string "stmt list"
  | OtherStmt "stmt list"

section \<open>The declaration extractor (\<^verbatim>\<open>ImportsVisitor\<close>)\<close>

record ImportsVisitor =
  imported_modules :: "string set"
  module_defs :: "string set"

definition new_visitor :: ImportsVisitor where
  "new_visitor = \<lparr>imported_modules = {}, module_defs = {}\<rparr>"

definition add_import :: "string \<Rightarrow> ImportsVisitor \<Rightarrow> ImportsVisitor" where
  "add_import p v = v\<lparr>imported_modules := insert p (imported_modules v)\<rparr>"

definition add_def :: "string \<Rightarrow> ImportsVisitor \<Rightarrow> ImportsVisitor" where
  "add_def n v = v\<lparr>module_defs := insert n (module_defs v)\<rparr>"

text \<open>\<^verbatim>\<open>visit_Import\<close>: \<^verbatim>\<open>for alias in node.names: self.imported_modules.add(alias.name)\<close>.\<close>

fun visit_Import :: "ast_alias list \<Rightarrow> ImportsVisitor \<Rightarrow> ImportsVisitor" where
  "visit_Import [] v = v"
| "visit_Import (a # names) v = visit_Import names (add_import (name a) v)"

text \<open>
  \<^verbatim>\<open>visit_ImportFrom\<close>, with \<^verbatim>\<open>module = node.module or ""\<close> computed by the caller
  \<open>visit_ImportFrom\<close> below and passed to the loop over the names.
\<close>

fun import_from_names :: "string \<Rightarrow> ast_alias list \<Rightarrow> ImportsVisitor \<Rightarrow> ImportsVisitor" where
  "import_from_names module [] v = v"
| "import_from_names module (a # names) v =
     import_from_names module names
       (if name a = ''*'' then (if module \<noteq> [] then add_import module v else v)
        else if module \<noteq> [] then add_import (module @ ''.'' @ name a) v
        else add_import (name a) v)"

definition visit_ImportFrom :: "string option \<Rightarrow> ast_alias list \<Rightarrow> ImportsVisitor \<Rightarrow> ImportsVisitor" where
  "visit_ImportFrom node_module names v =
     import_from_names (case node_module of None \<Rightarrow> [] | Some m \<Rightarrow> m) names v"

text \<open>The inner loop of \<^verbatim>\<open>visit_Assign\<close> over the elements of a tuple target.\<close>

fun assign_elts :: "expr list \<Rightarrow> ImportsVisitor \<Rightarrow> ImportsVisitor" where
  "assign_elts [] v = v"
| "assign_elts (Name n # elts) v = assign_elts elts (add_def n v)"
| "assign_elts (e # elts) v = assign_elts elts v"

text \<open>
  \<^verbatim>\<open>visit_Assign\<close>: a \<^verbatim>\<open>Name\<close> target is recorded, a \<^verbatim>\<open>Tuple\<close> target has its
  \<^verbatim>\<open>Name\<close> elements recorded, any other target is passed over.
\<close>

fun visit_Assign :: "expr list \<Rightarrow> ImportsVisitor \<Rightarrow> ImportsVisitor" where
  "visit_Assign [] v = v"
| "visit_Assign (Name n # targets) v = visit_Assign targets (add_def n v)"
| "visit_Assign (Tuple elts # targets) v = visit_Assign targets (assign_elts elts v)"
| "visit_Assign (t # targets) v = visit_Assign targets v"

text \<open>
  \<^verbatim>\<open>visit\<close> dispatches on the node kind; each method ends with \<^verbatim>\<open>generic_visit\<close>,
  which visits the nested statements in order.
\<close>

fun visit :: "stmt \<Rightarrow> ImportsVisitor \<Rightarrow> ImportsVisitor" where
  "visit (Import names) v = visit_Import names v"
| "visit (ImportFrom node_module names level) v = visit_ImportFrom node_module names v"
| "visit (Assign targets val) v = visit_Assign targets v"
| "visit (FunctionDef n body) v = fold visit body (add_def n v)"
| "visit (AsyncFunctionDef n body) v = fold visit body (add_def n v)"
| "visit (ClassDef n body) v = fold visit body (add_def n v)"
| "visit (OtherStmt body) v = fold visit body v"

text \<open>Visiting the \<^verbatim>\<open>Module\<close> node of a file with a fresh visitor.\<close>

definition visit_Module :: "stmt list \<Rightarrow> ImportsVisitor" where
  "visit_Module body = fold visit body new_visitor"

section \<open>Strings and paths\<close>

text \<open>\<^verbatim>\<open>str.split(sep)\<close> for a one-character separator: never the empty list.\<close>

fun split_on :: "char \<Rightarrow> string \<Rightarrow> string list" where
  "split_on sep [] = [[]]"
| "split_on sep (c # cs) =
     (if c = sep then [] # split_on sep cs
      else (case split_on sep cs of [] \<Rightarrow> [[c]] | w # ws \<Rightarrow> (c # w) # ws))"

text \<open>\<^verbatim>\<open>sep.join(xs)\<close>.\<close>

fun join :: "string \<Rightarrow> string list \<Rightarrow> string" where
  "join sep [] = []"
| "join sep [x] = x"
| "join sep (x # y # ys) = x @ sep @ join sep (y # ys)"

text \<open>\<^verbatim>\<open>s.rsplit(".", 1)\<close> for a string that contains a dot.\<close>

definition rsplit_dot :: "string \<Rightarrow> string \<times> string" where
  "rsplit_dot s =
     (let ps = split_on CHR ''.'' s in (join ''.'' (butlast ps), last ps))"

definition endswith :: "string \<Rightarrow> string \<Rightarrow> bool" where
  "endswith s suffix =
     (length suffix \<le> length s \<and> drop (length s - length suffix) s = suffix)"

text \<open>A string between single quotes, as the messages of the code print names.\<close>

definition quoted :: "string \<Rightarrow> string" where
  "quoted s = [CHR 0x27] @ s @ [CHR 0x27]"

text \<open>
  An absolute \<^verbatim>\<open>pathlib.PurePosixPath\<close>: its root (\<^verbatim>\<open>/\<close>, or \<^verbatim>\<open>//\<close> when the text
  starts with exactly two slashes) and its components. Equality of paths, which the
  dictionaries of the manager use for their keys, is equality of these.
\<close>

datatype Path = Path (root: string) (parts: "string list")

definition path_components :: "string \<Rightarrow> string list" where
  "path_components s = filter (\<lambda>c. c \<noteq> [] \<and> c \<noteq> ''.'') (split_on CHR ''/'' s)"

text \<open>
  \<^verbatim>\<open>path / s\<close> for a string \<open>s\<close>: an absolute \<open>s\<close> replaces the path, a relative one
  is appended; empty components and \<^verbatim>\<open>.\<close> are dropped.
\<close>

definition joinpath :: "Path \<Rightarrow> string \<Rightarrow> Path" where
  "joinpath p s =
     (if take 1 s = ''/''
      then Path (if take 2 s = ''//'' \<and> take 3 s \<noteq> ''///'' then ''//'' else ''/'')
             (path_components s)
      else Path (root p) (parts p @ path_components s))"

text \<open>\<^verbatim>\<open>str(path)\<close>.\<close>

definition path_str :: "Path \<Rightarrow> string" where
  "path_str p = root p @ join ''/'' (parts p)"

section \<open>Exceptions\<close>

text \<open>
  The exception classes the code names, all derived from \<^verbatim>\<open>Exception\<close>;
  \<open>OtherException\<close> is any other class derived from \<^verbatim>\<open>Exception\<close>. Each carries
  the text of \<^verbatim>\<open>str(err)\<close>.
\<close>

datatype py_exception =
    SyntaxError string
  | ModuleNotFoundError string
  | FileNotFoundError string
  | TypeError string
  | OtherException string

fun exc_str :: "py_exception \<Rightarrow> string" where
  "exc_str (SyntaxError s) = s"
| "exc_str (ModuleNotFoundError s) = s"
| "exc_str (FileNotFoundError s) = s"
| "exc_str (TypeError s) = s"
| "exc_str (OtherException s) = s"

text \<open>
  What a call can raise: an exception derived from \<^verbatim>\<open>Exception\<close>, which a handler
  \<^verbatim>\<open>except Exception\<close> catches, or one derived from \<^verbatim>\<open>BaseException\<close> only, which
  such a handler lets through. \<open>SystemExit\<close> stands for the classes of the second kind
  (\<^verbatim>\<open>SystemExit\<close>, \<^verbatim>\<open>KeyboardInterrupt\<close>, \<^verbatim>\<open>GeneratorExit\<close>) and carries the text
  of \<^verbatim>\<open>str(err)\<close>. Importing a module runs its top-level code, which can call
  \<^verbatim>\<open>sys.exit\<close>; reading and parsing a file runs no code of the project, so their
  failures are of the first kind.
\<close>

datatype py_raised =
    Exception py_exception
  | SystemExit string

text \<open>
  \<^verbatim>\<open>path + s\<close> for a \<^verbatim>\<open>Path\<close> and a \<^verbatim>\<open>str\<close>. \<^verbatim>\<open>pathlib\<close> defines
  \<^verbatim>\<open>__truediv__\<close> and \<^verbatim>\<open>__rtruediv__\<close> on paths and no \<^verbatim>\<open>__add__\<close>, and
  \<^verbatim>\<open>str\<close> has no \<^verbatim>\<open>__radd__\<close>: the operator raises \<^verbatim>\<open>TypeError\<close> for every pair
  of operands of these types.
\<close>

definition path_add_str :: "Path \<Rightarrow> string \<Rightarrow> py_exception + Path" where
  "path_add_str p s =
     Inl (TypeError (''unsupported operand type(s) for +: '' @ quoted ''PosixPath''
                       @ '' and '' @ quoted ''str''))"

section \<open>The environment of a run\<close>

text \<open>
  What the code reads from outside: the file system, the platform name, the text of the
  source files as parsed by \<^verbatim>\<open>ast.parse\<close>, the modules the running interpreter can
  import, and the order in which a set of strings is iterated (which depends on the hash
  seed of the process).

  \<open>parse_source fix p\<close> is the outcome of \<^verbatim>\<open>p.read_text\<close> followed by \<^verbatim>\<open>ast.parse\<close>,
  after the \<^verbatim>\<open>ruff\<close> clean-up of the file when \<open>fix\<close> holds. A module object is
  represented by the outcome of \<^verbatim>\<open>hasattr\<close> on it, which may run the
  \<^verbatim>\<open>__getattr__\<close> of the module.
\<close>

datatype dirtree = Dir (subdirs: "(string \<times> dirtree) list") (filenames: "string list")

type_synonym pymodule = "string \<Rightarrow> py_raised + bool"

record env =
  path_exists :: "Path \<Rightarrow> bool"
  is_file :: "Path \<Rightarrow> bool"
  is_dir :: "Path \<Rightarrow> bool"
  walk_tree :: "Path \<Rightarrow> dirtree"
  platform :: string
  parse_source :: "bool \<Rightarrow> Path \<Rightarrow> py_exception + stmt list"
  import_module :: "string \<Rightarrow> py_raised + pymodule"
  set_order :: "string set \<Rightarrow> string list"

section \<open>\<^verbatim>\<open>utils.py\<close>\<close>

text \<open>
  \<^verbatim>\<open>validate_import\<close>: the body of the \<^verbatim>\<open>try\<close> is \<open>try_import\<close>, which yields whether
  the attribute is missing. The handlers \<^verbatim>\<open>except ModuleNotFoundError\<close> and
  \<^verbatim>\<open>except Exception\<close> turn an exception derived from \<^verbatim>\<open>Exception\<close> into a
  message; any other exception leaves the function. The result is the exception raised,
  or the optional message returned.
\<close>

definition try_import :: "env \<Rightarrow> string \<Rightarrow> string \<Rightarrow> py_raised + bool" where
  "try_import e module_path attr_name =
     (case import_module e module_path of
        Inl err \<Rightarrow> Inl err
      | Inr module \<Rightarrow>
          (if attr_name \<noteq> [] then
             (case module attr_name of Inl err \<Rightarrow> Inl err | Inr has \<Rightarrow> Inr (\<not> has))
           else Inr False))"

definition source_ctx :: "string option \<Rightarrow> string" where
  "source_ctx source_file =
     (case source_file of
        None \<Rightarrow> []
      | Some f \<Rightarrow> (if f \<noteq> [] then '' in '' @ f else []))"

definition validate_import ::
  "env \<Rightarrow> string \<Rightarrow> string option \<Rightarrow> py_raised + string option" where
  "validate_import e dotted_path source_file =
     (if dotted_path = [] then Inr (Some ''Empty import path'')
      else
        (let (module_path, attr_name) =
               (if CHR ''.'' \<in> set dotted_path then rsplit_dot dotted_path
                else (dotted_path, []))
         in case try_import e module_path attr_name of
              Inr missing \<Rightarrow>
                (if missing then
                   Inr (Some (''Module '' @ quoted module_path @ '' has no attribute ''
                                @ quoted attr_name @ source_ctx source_file))
                 else Inr None)
            | Inl (Exception (ModuleNotFoundError err)) \<Rightarrow>
                Inr (Some (''Module not found: '' @ quoted module_path @ source_ctx source_file
                             @ '' ('' @ err @ '')''))
            | Inl (Exception err) \<Rightarrow>
                Inr (Some (''Import error for '' @ quoted dotted_path @ '': '' @ exc_str err))
            | Inl (SystemExit code) \<Rightarrow> Inl (SystemExit code)))"

text \<open>\<^verbatim>\<open>VirtualEnvChecker\<close>.\<close>

definition VENV_INDICATORS :: "string \<Rightarrow> string list option" where
  "VENV_INDICATORS pf =
     (if pf = ''linux'' \<or> pf = ''linux2'' \<or> pf = ''darwin''
      then Some [''bin'', ''include'', ''lib'', ''pyvenv.cfg'']
      else if pf = ''win32'' then Some [''Scripts'', ''Include'', ''Lib'', ''pyvenv.cfg'']
      else None)"

definition is_venv :: "env \<Rightarrow> Path \<Rightarrow> bool" where
  "is_venv e p =
     (if \<not> is_dir e p then False
      else
        (case VENV_INDICATORS (platform e) of
           None \<Rightarrow> path_exists e (joinpath p ''pyvenv.cfg'')
         | Some indicators \<Rightarrow> list_all (\<lambda>ind. path_exists e (joinpath p ind)) indicators))"

section \<open>\<^verbatim>\<open>analyzer.py\<close>\<close>

text \<open>
  \<^verbatim>\<open>PythonFileAnalyzer.analyze\<close>: read and parse the file, visit the tree, keep the two
  sets of the visitor. An exception of reading or parsing is raised to the caller.
\<close>

definition analyze :: "env \<Rightarrow> bool \<Rightarrow> Path \<Rightarrow> py_exception + ImportsVisitor" where
  "analyze e fix file_path =
     (case parse_source e fix file_path of
        Inl err \<Rightarrow> Inl err
      | Inr tree \<Rightarrow> Inr (visit_Module tree))"

section \<open>\<^verbatim>\<open>manager.py\<close>\<close>

record ImportIssue =
  issue_file :: Path
  import_path :: string
  message :: string
  issue_type :: string

datatype log_level = WARNING | ERROR

text \<open>
  The state of a \<^verbatim>\<open>LinterManager\<close>. The two dictionaries are association lists in
  insertion order, as Python dictionaries are: \<open>AList.update\<close> replaces the value of a
  key in place and appends a new key. The dictionary \<^verbatim>\<open>module_defs\<close> of the manager is
  \<open>module_defs_dict\<close> here, the name \<open>module_defs\<close> being the field of the visitor.
  \<open>log_records\<close> holds what the code sends to the module-level logger.
\<close>

record LinterManager =
  root_path :: Path
  module_defs_dict :: "(Path \<times> string set) list"
  file_imports :: "(Path \<times> string set) list"
  issues :: "ImportIssue list"
  excluded_dirs :: "string set"
  auto_fix :: bool
  log_records :: "(log_level \<times> string) list"

definition DEFAULT_EXCLUDED_DIRS :: "string set" where
  "DEFAULT_EXCLUDED_DIRS =
     {''__pycache__'', ''.git'', ''.gitlab'', ''.github'', ''.idea'', ''.venv'', ''venv'',
      ''env'', ''.env'', ''node_modules'', ''build'', ''dist'', ''.eggs'', ''*.egg-info'',
      ''alembic'', ''migrations''}"

text \<open>\<^verbatim>\<open>__init__\<close>, given the absolute form of the path argument.\<close>

definition init_manager :: "Path \<Rightarrow> string set option \<Rightarrow> bool \<Rightarrow> LinterManager" where
  "init_manager p excluded fix =
     \<lparr>root_path = p, module_defs_dict = [], file_imports = [], issues = [],
      excluded_dirs =
        (case excluded of None \<Rightarrow> DEFAULT_EXCLUDED_DIRS
         | Some ds \<Rightarrow> DEFAULT_EXCLUDED_DIRS \<union> ds),
      auto_fix = fix, log_records = []\<rparr>"

definition dict_keys :: "('k \<times> 'v) list \<Rightarrow> 'k set" where
  "dict_keys d = fst ` set d"

text \<open>
  \<^verbatim>\<open>_analyze_file\<close>: both dictionaries are written after the analysis has returned; a
  \<^verbatim>\<open>SyntaxError\<close> is logged as a warning, any other exception as an error.
\<close>

definition analyze_file :: "env \<Rightarrow> Path \<Rightarrow> LinterManager \<Rightarrow> LinterManager" where
  "analyze_file e file_path m =
     (case analyze e (auto_fix m) file_path of
        Inr v \<Rightarrow>
          m\<lparr>file_imports := AList.update file_path (imported_modules v) (file_imports m),
            module_defs_dict := AList.update file_path (module_defs v) (module_defs_dict m)\<rparr>
      | Inl (SyntaxError err) \<Rightarrow>
          m\<lparr>log_records := log_records m
               @ [(WARNING, ''Syntax error in '' @ path_str file_path @ '': '' @ err)]\<rparr>
      | Inl err \<Rightarrow>
          m\<lparr>log_records := log_records m
               @ [(ERROR, ''Error analyzing '' @ path_str file_path @ '': '' @ exc_str err)]\<rparr>)"

text \<open>
  \<^verbatim>\<open>os.walk\<close>, top down: the \<^verbatim>\<open>.py\<close> files of a directory first, then each kept
  sub-directory in turn; \<open>keep dirpath d\<close> is the filter the code applies to
  \<^verbatim>\<open>dirnames\<close>.
\<close>

fun walk_py_files :: "(Path \<Rightarrow> string \<Rightarrow> bool) \<Rightarrow> Path \<Rightarrow> dirtree \<Rightarrow> Path list" where
  "walk_py_files keep dirpath (Dir subs fs) =
     map (joinpath dirpath) (filter (\<lambda>f. endswith f ''.py'') fs)
     @ concat (map (\<lambda>st. walk_py_files keep (joinpath dirpath (fst st)) (snd st))
                 (filter (\<lambda>st. keep dirpath (fst st)) subs))"

definition keep_dir :: "env \<Rightarrow> LinterManager \<Rightarrow> Path \<Rightarrow> string \<Rightarrow> bool" where
  "keep_dir e m dirpath d = (d \<notin> excluded_dirs m \<and> \<not> is_venv e (joinpath dirpath d))"

definition analyze_directory :: "env \<Rightarrow> LinterManager \<Rightarrow> LinterManager" where
  "analyze_directory e m =
     fold (analyze_file e)
       (walk_py_files (keep_dir e m) (root_path m) (walk_tree e (root_path m))) m"

definition collect_files :: "env \<Rightarrow> LinterManager \<Rightarrow> LinterManager" where
  "collect_files e m =
     (if is_file e (root_path m) then analyze_file e (root_path m) m
      else if is_dir e (root_path m) then analyze_directory e m
      else m)"

text \<open>
  \<^verbatim>\<open>_check_import\<close>. The result is the exception raised, or the optional issue returned.
  In line 190 the operator \<^verbatim>\<open>/\<close> binds tighter than \<^verbatim>\<open>+\<close>: the expression is
  \<^verbatim>\<open>(self.root_path / "/".join(module_parts)) + ".py"\<close>.
\<close>

definition external_check ::
  "env \<Rightarrow> Path \<Rightarrow> string \<Rightarrow> py_raised + ImportIssue option" where
  "external_check e file_path imp =
     (case validate_import e imp (Some (path_str file_path)) of
        Inl err \<Rightarrow> Inl err
      | Inr (Some error) \<Rightarrow>
          Inr (Some \<lparr>issue_file = file_path, import_path = imp, message = error,
                     issue_type = ''EXTERNAL''\<rparr>)
      | Inr None \<Rightarrow> Inr None)"

definition check_import ::
  "env \<Rightarrow> LinterManager \<Rightarrow> Path \<Rightarrow> string \<Rightarrow> py_raised + ImportIssue option" where
  "check_import e m file_path imp =
     (let ps = split_on CHR ''.'' imp in
      if ps = [] then Inr None
      else
        (let attr_name = last ps; module_parts = butlast ps in
         if module_parts \<noteq> [] then
           (if joinpath (joinpath (root_path m) (join ''/'' module_parts)) (attr_name @ ''.py'')
                 \<in> dict_keys (file_imports m)
            then Inr None
            else if path_exists e
                      (joinpath (joinpath (root_path m) (join ''/'' (module_parts @ [attr_name])))
                         ''__init__.py'')
            then Inr None
            else
              (case path_add_str (joinpath (root_path m) (join ''/'' module_parts)) ''.py'' of
                 Inl err \<Rightarrow> Inl (Exception err)
               | Inr module_file \<Rightarrow>
                   (case map_of (module_defs_dict m) module_file of
                      Some defs \<Rightarrow>
                        (if attr_name \<notin> defs then
                           Inr (Some \<lparr>issue_file = file_path, import_path = imp,
                                       message = quoted (join ''.'' module_parts)
                                         @ '' does not define '' @ quoted attr_name,
                                       issue_type = ''UNDEFINED''\<rparr>)
                         else Inr None)
                    | None \<Rightarrow> external_check e file_path imp)))
         else external_check e file_path imp))"

text \<open>
  \<^verbatim>\<open>_validate_imports\<close>: the loop over the imports of one file, in the iteration order of
  the set, and the loop over the items of \<^verbatim>\<open>file_imports\<close>. An exception of
  \<^verbatim>\<open>_check_import\<close> ends both loops; the issues appended so far stay in the manager.
\<close>

fun check_imports ::
  "env \<Rightarrow> Path \<Rightarrow> string list \<Rightarrow> LinterManager \<Rightarrow> LinterManager \<times> py_raised option" where
  "check_imports e file_path [] m = (m, None)"
| "check_imports e file_path (imp # imps) m =
     (case check_import e m file_path imp of
        Inl err \<Rightarrow> (m, Some err)
      | Inr None \<Rightarrow> check_imports e file_path imps m
      | Inr (Some issue) \<Rightarrow> check_imports e file_path imps (m\<lparr>issues := issues m @ [issue]\<rparr>))"

fun validate_items ::
  "env \<Rightarrow> (Path \<times> string set) list \<Rightarrow> LinterManager \<Rightarrow> LinterManager \<times> py_raised option" where
  "validate_items e [] m = (m, None)"
| "validate_items e ((file_path, imports) # items) m =
     (case check_imports e file_path (set_order e imports) m of
        (m', Some err) \<Rightarrow> (m', Some err)
      | (m', None) \<Rightarrow> validate_items e items m')"

definition validate_imports :: "env \<Rightarrow> LinterManager \<Rightarrow> LinterManager \<times> py_raised option" where
  "validate_imports e m = validate_items e (file_imports m) m"

text \<open>
  \<^verbatim>\<open>run\<close>: the manager after the call, and the exception raised or the list returned.
\<close>

definition run :: "env \<Rightarrow> LinterManager \<Rightarrow> LinterManager \<times> (py_raised + ImportIssue list)" where
  "run e m =
     (if \<not> path_exists e (root_path m)
      then (m, Inl (Exception (FileNotFoundError
                                 (''Path not found: '' @ path_str (root_path m)))))
      else
        (case validate_imports e (collect_files e m) of
           (m', Some err) \<Rightarrow> (m', Inl err)
         | (m', None) \<Rightarrow> (m', Inr (issues m'))))"

section \<open>Example projects\<close>

text \<open>
  An iteration order for sets of strings: the members of the set in the order of a
  priority list. Two priority lists give two orders of the same set.
\<close>

definition order_by :: "string list \<Rightarrow> string set \<Rightarrow> string list" where
  "order_by priority s = filter (\<lambda>x. x \<in> s) priority"

text \<open>An interpreter in which no module can be imported.\<close>

definition no_module :: "string \<Rightarrow> py_raised + pymodule" where
  "no_module p = Inl (Exception (ModuleNotFoundError (''No module named '' @ quoted p)))"



definition proj :: Path where
  "proj = Path ''/'' [''proj'']"

definition app_py :: Path where
  "app_py = Path ''/'' [''proj'', ''app.py'']"

definition mod_py :: Path where
  "mod_py = Path ''/'' [''proj'', ''pkg'', ''mod.py'']"

definition bad_py :: Path where
  "bad_py = Path ''/'' [''proj'', ''bad.py'']"

text \<open>
  The project of scenarios 1 and 2 of the specification: \<^verbatim>\<open>/proj/pkg/mod.py\<close> is
  \<^verbatim>\<open>def foo(): pass\<close> and \<^verbatim>\<open>/proj/app.py\<close> is \<^verbatim>\<open>from pkg.mod import foo\<close>.
  A third file \<^verbatim>\<open>/proj/bad.py\<close>, not listed by the walk, does not parse.
\<close>

definition scenario_env :: env where
  "scenario_env =
     \<lparr>path_exists = (\<lambda>p. p \<in> {proj, app_py, Path ''/'' [''proj'', ''pkg''], mod_py, bad_py}),
      is_file = (\<lambda>p. p \<in> {app_py, mod_py, bad_py}),
      is_dir = (\<lambda>p. p \<in> {proj, Path ''/'' [''proj'', ''pkg'']}),
      walk_tree = (\<lambda>p. Dir [(''pkg'', Dir [] [''mod.py''])] [''app.py'']),
      platform = ''linux'',
      parse_source = (\<lambda>fix p.
         if p = app_py then Inr [ImportFrom (Some ''pkg.mod'') [Alias ''foo'' None] 0]
         else if p = mod_py then Inr [FunctionDef ''foo'' []]
         else if p = bad_py then Inl (SyntaxError ''invalid syntax'')
         else Inl (FileNotFoundError (path_str p))),
      import_module = no_module,
      set_order = order_by [''pkg.mod.foo'']\<rparr>"

definition scenario_manager :: LinterManager where
  "scenario_manager = init_manager proj None False"

text \<open>
  A single file \<^verbatim>\<open>/proj/app.py\<close> with the text \<^verbatim>\<open>import alpha, beta\<close>, given as
  the root, under two iteration orders of the set of its imports.
\<close>

definition two_imports_env :: "string list \<Rightarrow> env" where
  "two_imports_env priority =
     \<lparr>path_exists = (\<lambda>p. p \<in> {proj, app_py}),
      is_file = (\<lambda>p. p = app_py),
      is_dir = (\<lambda>p. p = proj),
      walk_tree = (\<lambda>p. Dir [] []),
      platform = ''linux'',
      parse_source = (\<lambda>fix p.
         if p = app_py then Inr [Import [Alias ''alpha'' None, Alias ''beta'' None]]
         else Inl (FileNotFoundError (path_str p))),
      import_module = no_module,
      set_order = order_by priority\<rparr>"

definition two_imports_manager :: LinterManager where
  "two_imports_manager = init_manager app_py None False"

section \<open>Properties of the extractor\<close>

lemma assign_elts_imports: "imported_modules (assign_elts elts v) = imported_modules v"
  by (induction elts v rule: assign_elts.induct) (simp_all add: add_def_def)

lemma assign_elts_defs:
  "module_defs (assign_elts elts v) = module_defs v \<union> {n. Name n \<in> set elts}"
  by (induction elts v rule: assign_elts.induct) (auto simp: add_def_def)

lemma visit_Assign_imports: "imported_modules (visit_Assign targets v) = imported_modules v"
  by (induction targets v rule: visit_Assign.induct)
     (simp_all add: add_def_def assign_elts_imports)

lemma visit_Assign_defs:
  "module_defs (visit_Assign targets v) =
     module_defs v \<union> {n. Name n \<in> set targets}
       \<union> {n. \<exists>elts. Tuple elts \<in> set targets \<and> Name n \<in> set elts}"
  by (induction targets v rule: visit_Assign.induct)
     (auto simp: add_def_def assign_elts_defs)

lemma visit_Assign_eq:
  "visit_Assign targets v =
     v\<lparr>module_defs := module_defs v \<union> {n. Name n \<in> set targets}
           \<union> {n. \<exists>elts. Tuple elts \<in> set targets \<and> Name n \<in> set elts}\<rparr>"
  by (rule ImportsVisitor.equality) (simp_all add: visit_Assign_imports visit_Assign_defs)

text \<open>
  C3, as the code has it. An assignment adds to \<open>module_defs\<close> exactly the names that are
  targets themselves and the names that are direct elements of a tuple target, and changes
  nothing else: attribute and subscript targets, starred or nested elements, and targets
  written as a list display add no entry. After \<^verbatim>\<open>a, b = 1, 2\<close> both \<open>a\<close> and \<open>b\<close>
  are defined names.
\<close>

theorem visit_Assign_records:
  "visit (Assign targets val) v =
     v\<lparr>module_defs := module_defs v \<union> {n. Name n \<in> set targets}
           \<union> {n. \<exists>elts. Tuple elts \<in> set targets \<and> Name n \<in> set elts}\<rparr>
   \<and> {''a'', ''b''} \<subseteq> module_defs (visit (Assign [Tuple [Name ''a'', Name ''b'']] val) v)"
  by (simp add: visit_Assign_eq)

text \<open>
  C3 as stated fails for a sequence-destructuring target written as a list display:
  after \<^verbatim>\<open>[a, b] = 1, 2\<close> on a fresh visitor no name is defined.
\<close>

theorem list_target_not_recorded:
  "module_defs
     (visit (Assign [ListDisplay [Name ''a'', Name ''b'']]
               (Tuple [OtherExpr [], OtherExpr []])) new_visitor) = {}"
  by (simp add: new_visitor_def)

text \<open>
  C4. \<^verbatim>\<open>from M import *\<close> with a non-empty \<open>M\<close> adds exactly \<open>M\<close> to the imported
  paths and nothing else; a wildcard import with no named module leaves the visitor as
  it was.
\<close>

theorem star_import_records_module:
  assumes "M \<noteq> []"
  shows "visit (ImportFrom (Some M) [Alias ''*'' a] lvl) v =
           v\<lparr>imported_modules := insert M (imported_modules v)\<rparr>
         \<and> visit (ImportFrom None [Alias ''*'' a] lvl) v = v"
  using assms by (simp add: visit_ImportFrom_def add_import_def)

theorem star_import_records_module_witness:
  "''pkg.mod'' \<noteq> []
   \<and> visit (ImportFrom (Some ''pkg.mod'') [Alias ''*'' None] 0) new_visitor =
       \<lparr>imported_modules = {''pkg.mod''}, module_defs = {}\<rparr>
   \<and> visit (ImportFrom None [Alias ''*'' None] 1) new_visitor = new_visitor"
  using star_import_records_module [of "''pkg.mod''" None 0 new_visitor]
  by (simp add: new_visitor_def)

text \<open>
  C5. \<^verbatim>\<open>from . import x\<close>, which has no module, adds exactly the bare name \<open>x\<close> to
  the imported paths.
\<close>

theorem bare_relative_import_records_name:
  assumes "x \<noteq> ''*''"
  shows "visit (ImportFrom None [Alias x a] lvl) v =
           v\<lparr>imported_modules := insert x (imported_modules v)\<rparr>"
  using assms by (simp add: visit_ImportFrom_def add_import_def)

theorem bare_relative_import_records_name_witness:
  "''config'' \<noteq> ''*''
   \<and> visit (ImportFrom None [Alias ''config'' None] 1) new_visitor =
       \<lparr>imported_modules = {''config''}, module_defs = {}\<rparr>"
  using bare_relative_import_records_name [of "''config''" None 1 new_visitor]
  by (simp add: new_visitor_def)

text \<open>
  C10. \<^verbatim>\<open>import X as y\<close> adds the dotted path \<open>X\<close> as it is written to the imported
  paths; nothing but \<open>X\<close> is added there and the defined names are unchanged, so the
  alias \<open>y\<close> enters neither set.
\<close>

theorem aliased_import_records_path:
  "visit (Import [Alias X (Some y)]) v = v\<lparr>imported_modules := insert X (imported_modules v)\<rparr>
   \<and> imported_modules (visit (Import [Alias X (Some y)]) v) - imported_modules v \<subseteq> {X}
   \<and> module_defs (visit (Import [Alias X (Some y)]) v) = module_defs v"
  by (auto simp add: add_import_def)

section \<open>Properties of the resolver\<close>

lemma split_on_nonempty: "split_on sep s \<noteq> []"
  by (induction s) (auto split: list.splits)



text \<open>
  An import path with a module prefix is accepted by the module-file or the package test,
  or line 190 raises: the attribute lookup and the external check are never reached.
\<close>

lemma check_import_dotted:
  assumes "butlast (split_on CHR ''.'' imp) \<noteq> []"
  shows "check_import e m f imp = Inr None \<or>
         check_import e m f imp =
           Inl (Exception (TypeError (''unsupported operand type(s) for +: ''
                                        @ quoted ''PosixPath'' @ '' and '' @ quoted ''str'')))"
  using assms by (simp add: check_import_def Let_def split_on_nonempty path_add_str_def)

text \<open>
  C1, at the project of scenarios 1 and 2. \<^verbatim>\<open>/proj/pkg/mod.py\<close> is indexed and defines
  \<open>foo\<close>; no file \<^verbatim>\<open>/proj/pkg/mod/foo.py\<close> is indexed and no package
  \<^verbatim>\<open>/proj/pkg/mod/foo\<close> exists. The check of \<^verbatim>\<open>pkg.mod.foo\<close> raises
  \<^verbatim>\<open>TypeError\<close> instead of accepting the import, the check of \<^verbatim>\<open>pkg.mod.bar\<close>
  raises it instead of returning an issue, and the run ends with this exception.
\<close>

theorem local_attribute_check_raises:
  "map_of (module_defs_dict (collect_files scenario_env scenario_manager)) mod_py
     = Some {''foo''}
   \<and> check_import scenario_env (collect_files scenario_env scenario_manager) app_py
       ''pkg.mod.foo''
     = Inl (Exception (TypeError (''unsupported operand type(s) for +: ''
                                    @ quoted ''PosixPath'' @ '' and '' @ quoted ''str'')))
   \<and> check_import scenario_env (collect_files scenario_env scenario_manager) app_py
       ''pkg.mod.bar''
     = Inl (Exception (TypeError (''unsupported operand type(s) for +: ''
                                    @ quoted ''PosixPath'' @ '' and '' @ quoted ''str'')))
   \<and> snd (run scenario_env scenario_manager)
     = Inl (Exception (TypeError (''unsupported operand type(s) for +: ''
                                    @ quoted ''PosixPath'' @ '' and '' @ quoted ''str'')))"
  by code_simp

subsection \<open>Determinism\<close>

lemma check_import_cong:
  assumes "path_exists e1 = path_exists e2" "import_module e1 = import_module e2"
  shows "check_import e1 m f imp = check_import e2 m f imp"
proof -
  have "validate_import e1 imp src = validate_import e2 imp src" for src
    using assms by (simp add: validate_import_def try_import_def)
  then have "external_check e1 f imp = external_check e2 f imp"
    by (simp add: external_check_def)
  then show ?thesis
    using assms by (simp add: check_import_def Let_def path_add_str_def)
qed

lemma check_imports_cong:
  assumes "path_exists e1 = path_exists e2" "import_module e1 = import_module e2"
  shows "check_imports e1 f imps m = check_imports e2 f imps m"
proof (induction imps arbitrary: m)
  case Nil
  show ?case by simp
next
  case (Cons imp imps)
  show ?case
    using check_import_cong [OF assms, of m f imp] Cons.IH
    by (simp split: sum.splits option.splits)
qed

lemma validate_items_cong:
  assumes "path_exists e1 = path_exists e2" "import_module e1 = import_module e2"
    "\<forall>(f, s) \<in> set items. set_order e1 s = set_order e2 s"
  shows "validate_items e1 items m = validate_items e2 items m"
  using assms(3)
proof (induction items arbitrary: m)
  case Nil
  show ?case by simp
next
  case (Cons it items)
  obtain f s where it: "it = (f, s)" by (cases it)
  from Cons.prems it have o: "set_order e1 s = set_order e2 s" by simp
  from Cons.prems have r: "\<forall>(f, s) \<in> set items. set_order e1 s = set_order e2 s" by simp
  show ?case
    using Cons.IH [OF r] check_imports_cong [OF assms(1,2), of f "set_order e2 s" m] o it
    by (simp split: prod.splits option.splits)
qed

text \<open>
  C2, as the code has it. The resolver reads the index, the package files on disk, the
  external provider and the order in which each set of imports is iterated, and nothing
  else: two runs on the same manager in environments that agree on these four give the
  same manager, with the same list of issues in the same order, and the same exception
  if one is raised.
\<close>

theorem validate_imports_deterministic:
  assumes "path_exists e1 = path_exists e2" "import_module e1 = import_module e2"
    "\<forall>(f, s) \<in> set (file_imports m). set_order e1 s = set_order e2 s"
  shows "validate_imports e1 m = validate_imports e2 m
         \<and> issues (fst (validate_imports e1 m)) = issues (fst (validate_imports e2 m))"
  using validate_items_cong [OF assms] by (simp add: validate_imports_def)

theorem validate_imports_deterministic_witness:
  "path_exists (two_imports_env [''alpha'', ''beta''])
     = path_exists ((two_imports_env [''alpha'', ''zeta'', ''beta''])\<lparr>platform := ''win32''\<rparr>)
   \<and> import_module (two_imports_env [''alpha'', ''beta''])
     = import_module ((two_imports_env [''alpha'', ''zeta'', ''beta''])\<lparr>platform := ''win32''\<rparr>)
   \<and> set_order (two_imports_env [''alpha'', ''beta'']) {''alpha'', ''beta''}
     = set_order ((two_imports_env [''alpha'', ''zeta'', ''beta''])\<lparr>platform := ''win32''\<rparr>)
         {''alpha'', ''beta''}
   \<and> validate_imports (two_imports_env [''alpha'', ''beta''])
         (two_imports_manager\<lparr>file_imports := [(app_py, {''alpha'', ''beta''})],
                               module_defs_dict := [(app_py, {})]\<rparr>)
     = validate_imports ((two_imports_env [''alpha'', ''zeta'', ''beta''])\<lparr>platform := ''win32''\<rparr>)
         (two_imports_manager\<lparr>file_imports := [(app_py, {''alpha'', ''beta''})],
                               module_defs_dict := [(app_py, {})]\<rparr>)"
proof -
  have h1: "path_exists (two_imports_env [''alpha'', ''beta''])
     = path_exists ((two_imports_env [''alpha'', ''zeta'', ''beta''])\<lparr>platform := ''win32''\<rparr>)"
    by (simp add: two_imports_env_def)
  have h2: "import_module (two_imports_env [''alpha'', ''beta''])
     = import_module ((two_imports_env [''alpha'', ''zeta'', ''beta''])\<lparr>platform := ''win32''\<rparr>)"
    by (simp add: two_imports_env_def)
  have h3: "\<forall>(f, s) \<in> set (file_imports
                         (two_imports_manager\<lparr>file_imports := [(app_py, {''alpha'', ''beta''})],
                                               module_defs_dict := [(app_py, {})]\<rparr>)).
         set_order (two_imports_env [''alpha'', ''beta'']) s
           = set_order ((two_imports_env [''alpha'', ''zeta'', ''beta''])
                          \<lparr>platform := ''win32''\<rparr>) s"
    by (simp add: two_imports_env_def order_by_def)
  have h4: "set_order (two_imports_env [''alpha'', ''beta'']) {''alpha'', ''beta''}
     = set_order ((two_imports_env [''alpha'', ''zeta'', ''beta''])\<lparr>platform := ''win32''\<rparr>)
         {''alpha'', ''beta''}"
    by (simp add: two_imports_env_def order_by_def)
  show ?thesis
    using h1 h2 h4 validate_imports_deterministic [OF h1 h2 h3] by simp
qed

text \<open>
  C2 as stated fails. The file \<^verbatim>\<open>/proj/app.py\<close> with \<^verbatim>\<open>import alpha, beta\<close> gives the
  same index, the same provider and the same disk in both runs; the set of its imports
  is iterated in one order in the first run and in the other order in the second, and the
  two lists of issues differ.
\<close>

theorem issue_order_follows_set_order:
  "file_imports (collect_files (two_imports_env [''alpha'', ''beta'']) two_imports_manager)
     = [(app_py, {''alpha'', ''beta''})]
   \<and> file_imports (collect_files (two_imports_env [''beta'', ''alpha'']) two_imports_manager)
     = [(app_py, {''alpha'', ''beta''})]
   \<and> module_defs_dict (collect_files (two_imports_env [''alpha'', ''beta'']) two_imports_manager)
     = module_defs_dict (collect_files (two_imports_env [''beta'', ''alpha'']) two_imports_manager)
   \<and> import_module (two_imports_env [''alpha'', ''beta''])
     = import_module (two_imports_env [''beta'', ''alpha''])
   \<and> path_exists (two_imports_env [''alpha'', ''beta''])
     = path_exists (two_imports_env [''beta'', ''alpha''])
   \<and> map import_path (issues (fst (run (two_imports_env [''alpha'', ''beta'']) two_imports_manager)))
     = [''alpha'', ''beta'']
   \<and> map import_path (issues (fst (run (two_imports_env [''beta'', ''alpha'']) two_imports_manager)))
     = [''beta'', ''alpha'']
   \<and> snd (run (two_imports_env [''alpha'', ''beta'']) two_imports_manager)
     \<noteq> snd (run (two_imports_env [''beta'', ''alpha'']) two_imports_manager)"
proof -
  have a: "file_imports (collect_files (two_imports_env [''alpha'', ''beta'']) two_imports_manager)
     = [(app_py, {''alpha'', ''beta''})]"
    by code_simp
  have b: "file_imports (collect_files (two_imports_env [''beta'', ''alpha'']) two_imports_manager)
     = [(app_py, {''alpha'', ''beta''})]"
    by code_simp
  have c: "module_defs_dict (collect_files (two_imports_env [''alpha'', ''beta'']) two_imports_manager)
     = module_defs_dict (collect_files (two_imports_env [''beta'', ''alpha'']) two_imports_manager)"
    by code_simp
  have d: "map import_path (issues (fst (run (two_imports_env [''alpha'', ''beta'']) two_imports_manager)))
     = [''alpha'', ''beta'']"
    by code_simp
  have e: "map import_path (issues (fst (run (two_imports_env [''beta'', ''alpha'']) two_imports_manager)))
     = [''beta'', ''alpha'']"
    by code_simp
  have f: "snd (run (two_imports_env [''alpha'', ''beta'']) two_imports_manager)
     \<noteq> snd (run (two_imports_env [''beta'', ''alpha'']) two_imports_manager)"
    by code_simp
  show ?thesis
    using a b c d e f by (simp add: two_imports_env_def)
qed

subsection \<open>The external check\<close>





section \<open>Properties of the index builder\<close>








text \<open>
  C9. The analysis of a file keeps the two dictionaries on the same set of keys, whatever
  its outcome, and so does the analysis of any sequence of files.
\<close>

lemma analyze_file_keys:
  assumes "dict_keys (file_imports m) = dict_keys (module_defs_dict m)"
  shows "dict_keys (file_imports (analyze_file e f m))
           = dict_keys (module_defs_dict (analyze_file e f m))"
  using assms
  by (simp add: analyze_file_def dict_keys_def dom_update split: sum.splits py_exception.splits)

lemma fold_analyze_keys:
  assumes "dict_keys (file_imports m) = dict_keys (module_defs_dict m)"
  shows "dict_keys (file_imports (fold (analyze_file e) fs m))
           = dict_keys (module_defs_dict (fold (analyze_file e) fs m))"
  using assms by (induction fs arbitrary: m) (simp_all add: analyze_file_keys)

theorem index_keys_consistent:
  assumes "dict_keys (file_imports m) = dict_keys (module_defs_dict m)"
  shows "dict_keys (file_imports (analyze_file e f m))
           = dict_keys (module_defs_dict (analyze_file e f m))
         \<and> dict_keys (file_imports (fold (analyze_file e) fs m))
           = dict_keys (module_defs_dict (fold (analyze_file e) fs m))"
  using assms by (simp add: analyze_file_keys fold_analyze_keys)

theorem index_keys_consistent_witness:
  "dict_keys (file_imports scenario_manager) = dict_keys (module_defs_dict scenario_manager)
   \<and> dict_keys (file_imports (analyze_file scenario_env app_py scenario_manager))
       = dict_keys (module_defs_dict (analyze_file scenario_env app_py scenario_manager))
   \<and> dict_keys (file_imports
         (fold (analyze_file scenario_env) [app_py, bad_py, mod_py] scenario_manager))
       = dict_keys (module_defs_dict
           (fold (analyze_file scenario_env) [app_py, bad_py, mod_py] scenario_manager))"
proof -
  have h: "dict_keys (file_imports scenario_manager)
             = dict_keys (module_defs_dict scenario_manager)"
    by (simp add: scenario_manager_def init_manager_def)
  show ?thesis
    using h index_keys_consistent [OF h, of scenario_env app_py "[app_py, bad_py, mod_py]"]
    by simp
qed

section \<open>A missing root\<close>

lemma run_root_missing:
  assumes "\<not> path_exists e (root_path m)"
  shows "run e m =
           (m, Inl (Exception (FileNotFoundError
                                 (''Path not found: '' @ path_str (root_path m)))))"
  using assms by (simp add: run_def)

text \<open>
  C8. When the root does not exist, \<^verbatim>\<open>run\<close> raises \<^verbatim>\<open>FileNotFoundError\<close> and
  leaves the manager as it was created: both dictionaries empty, no issue, nothing logged.
\<close>

theorem run_missing_root:
  assumes "\<not> path_exists e p"
  shows "run e (init_manager p excluded fix)
           = (init_manager p excluded fix,
              Inl (Exception (FileNotFoundError (''Path not found: '' @ path_str p))))
         \<and> file_imports (fst (run e (init_manager p excluded fix))) = []
         \<and> module_defs_dict (fst (run e (init_manager p excluded fix))) = []
         \<and> issues (fst (run e (init_manager p excluded fix))) = []
         \<and> log_records (fst (run e (init_manager p excluded fix))) = []"
proof -
  have "\<not> path_exists e (root_path (init_manager p excluded fix))"
    using assms by (simp add: init_manager_def)
  from run_root_missing [OF this]
  show ?thesis by (simp add: init_manager_def)
qed

theorem run_missing_root_witness:
  "\<not> path_exists scenario_env (Path ''/'' [''nowhere''])
   \<and> snd (run scenario_env (init_manager (Path ''/'' [''nowhere'']) None False))
       = Inl (Exception (FileNotFoundError ''Path not found: /nowhere''))
   \<and> file_imports (fst (run scenario_env (init_manager (Path ''/'' [''nowhere'']) None False)))
       = []
   \<and> issues (fst (run scenario_env (init_manager (Path ''/'' [''nowhere'']) None False))) = []"
proof -
  have h: "\<not> path_exists scenario_env (Path ''/'' [''nowhere''])"
    by (simp add: scenario_env_def proj_def app_py_def mod_py_def bad_py_def)
  show ?thesis
    using h run_missing_root [OF h, of None False] by (simp add: path_str_def init_manager_def)
qed

end
